theory Spec2Isabelle
  imports Main "HOL-Library.Sublist"
begin

section \<open>The runner state of torchtnt (torchtnt/runner/state.py)\<close>

text \<open>
  The module defines a validation helper, the enumeration \<open>EntryPoint\<close> and the two
  dataclasses \<open>PhaseState\<close> and \<open>State\<close>. Exceptions are values of a sum type, Python's
  unbounded integers are \<^typ>\<open>int\<close>, \<open>Optional[int]\<close> is \<^typ>\<open>int option\<close>, and a
  method that mutates \<open>self\<close> returns the updated object. The collaborators
  \<open>Progress\<close>, \<open>Timer\<close>, the dataloader and the step output are opaque: they are type
  parameters, and the value a default factory produces is passed in.
\<close>

subsection \<open>Formatting an integer as Python's f-string does\<close>

text \<open>
  \<open>str_int\<close> is the decimal text that \<open>str\<close> gives for an integer: a minus sign for a
  negative one, then the digits without leading zeros. (CPython can be configured to
  refuse the conversion of an integer of more than a given number of digits, 4300 unless
  set otherwise; the model is of the conversion itself, without that limit.)
\<close>

definition digit_char :: "nat \<Rightarrow> char" where
  "digit_char d = ''0123456789'' ! d"

fun str_nat :: "nat \<Rightarrow> string" where
  "str_nat n = (if n < 10 then [digit_char n] else str_nat (n div 10) @ [digit_char (n mod 10)])"

declare str_nat.simps [simp del]

definition str_int :: "int \<Rightarrow> string" where
  "str_int i = (if i < 0 then CHR ''-'' # str_nat (nat (- i)) else str_nat (nat i))"

subsection \<open>Errors\<close>

text \<open>
  \<open>ValueError\<close> carries its message. \<open>AttributeError\<close> is what Python raises on an
  assignment to a property without a setter and on an attribute access on \<open>None\<close>.
\<close>

datatype error = ValueError string | AttributeError

subsection \<open>\<open>_check_loop_condition\<close>\<close>

definition invalid_value_message :: "string \<Rightarrow> int \<Rightarrow> string" where
  "invalid_value_message name val =
     ''Invalid value provided for '' @ name @
     ''. Expected a non-negative integer or None, but received '' @ str_int val @ ''.''"

definition check_loop_condition :: "string \<Rightarrow> int option \<Rightarrow> error + unit" where
  "check_loop_condition name val =
     (case val of
        None \<Rightarrow> Inr ()
      | Some v \<Rightarrow> if v < 0 then Inl (ValueError (invalid_value_message name v)) else Inr ())"

subsection \<open>\<open>EntryPoint\<close>\<close>

datatype EntryPoint = FIT | TRAIN | EVALUATE | PREDICT

subsection \<open>\<open>PhaseState\<close>\<close>

record ('d, 'p, 'o) PhaseState =
  dataloader :: 'd
  progress :: 'p
  max_epochs :: "int option"
  max_steps :: "int option"
  max_steps_per_epoch :: "int option"
  evaluate_every_n_steps :: "int option"
  evaluate_every_n_epochs :: "int option"
  step_output :: "'o option"

text \<open>
  \<open>__post_init__\<close>: the five checks in the order of the source; the first one that raises
  ends the call.
\<close>

definition post_init :: "('d, 'p, 'o) PhaseState \<Rightarrow> error + unit" where
  "post_init self =
     (case check_loop_condition ''max_epochs'' (max_epochs self) of
        Inl e \<Rightarrow> Inl e
      | Inr _ \<Rightarrow>
     (case check_loop_condition ''max_steps'' (max_steps self) of
        Inl e \<Rightarrow> Inl e
      | Inr _ \<Rightarrow>
     (case check_loop_condition ''max_steps_per_epoch'' (max_steps_per_epoch self) of
        Inl e \<Rightarrow> Inl e
      | Inr _ \<Rightarrow>
     (case check_loop_condition ''evaluate_every_n_steps'' (evaluate_every_n_steps self) of
        Inl e \<Rightarrow> Inl e
      | Inr _ \<Rightarrow>
        check_loop_condition ''evaluate_every_n_epochs'' (evaluate_every_n_epochs self)))))"

text \<open>
  The generated \<open>__init__\<close> of the dataclass: it stores every argument, then calls
  \<open>__post_init__\<close>; an exception there leaves the caller without an object. The first
  parameter is the value of the default factory \<open>Progress()\<close>, used when the argument
  \<open>progress\<close> is omitted (\<open>None\<close> here). The other defaults are Python's \<open>None\<close>.
\<close>

definition PhaseState_init ::
  "'p \<Rightarrow> 'd \<Rightarrow> 'p option \<Rightarrow> int option \<Rightarrow> int option \<Rightarrow> int option \<Rightarrow> int option \<Rightarrow> int option
     \<Rightarrow> 'o option \<Rightarrow> error + ('d, 'p, 'o) PhaseState" where
  "PhaseState_init fresh_progress dl pr me ms mspe eens eene so =
     (let self = \<lparr> dataloader = dl,
                   progress = (case pr of None \<Rightarrow> fresh_progress | Some p \<Rightarrow> p),
                   max_epochs = me, max_steps = ms, max_steps_per_epoch = mspe,
                   evaluate_every_n_steps = eens, evaluate_every_n_epochs = eene,
                   step_output = so \<rparr>
      in case post_init self of Inl e \<Rightarrow> Inl e | Inr _ \<Rightarrow> Inr self)"

subsection \<open>\<open>State\<close>\<close>

text \<open>
  The field \<open>private_should_stop\<close> is the source's \<open>_should_stop\<close> (an Isabelle name
  cannot start with an underscore).
\<close>

record ('t, 'd, 'p, 'o) State =
  entry_point :: EntryPoint
  timer :: 't
  train_state :: "('d, 'p, 'o) PhaseState option"
  eval_state :: "('d, 'p, 'o) PhaseState option"
  predict_state :: "('d, 'p, 'o) PhaseState option"
  private_should_stop :: bool

text \<open>
  The generated \<open>__init__\<close> of \<open>State\<close>: there is no \<open>__post_init__\<close>, every argument is
  stored as it is. The first parameter is the value of the default factory \<open>Timer()\<close>,
  used when \<open>timer\<close> is omitted; an omitted \<open>_should_stop\<close> (\<open>None\<close> here) is \<open>False\<close>.
  The result is in the same sum type as \<open>PhaseState_init\<close>, although no branch raises.
\<close>

definition State_init ::
  "'t \<Rightarrow> EntryPoint \<Rightarrow> 't option \<Rightarrow> ('d, 'p, 'o) PhaseState option \<Rightarrow> ('d, 'p, 'o) PhaseState option
     \<Rightarrow> ('d, 'p, 'o) PhaseState option \<Rightarrow> bool option \<Rightarrow> error + ('t, 'd, 'p, 'o) State" where
  "State_init fresh_timer ep tm ts es ps flag =
     Inr \<lparr> entry_point = ep,
           timer = (case tm of None \<Rightarrow> fresh_timer | Some t \<Rightarrow> t),
           train_state = ts, eval_state = es, predict_state = ps,
           private_should_stop = (case flag of None \<Rightarrow> False | Some b \<Rightarrow> b) \<rparr>"

text \<open>
  \<open>stop\<close> logs a warning on the module's logger and sets the flag. The logger is an
  external collaborator: the records it receives are the first component of the result.
\<close>

datatype log_level = WARNING

type_synonym log_record = "log_level \<times> string"

definition stop :: "('t, 'd, 'p, 'o) State \<Rightarrow> log_record list \<times> ('t, 'd, 'p, 'o) State" where
  "stop self = ([(WARNING, ''Received signal to stop'')], self\<lparr>private_should_stop := True\<rparr>)"

definition should_stop :: "('t, 'd, 'p, 'o) State \<Rightarrow> bool" where
  "should_stop self = private_should_stop self"

text \<open>\<open>n\<close> calls of \<open>stop\<close> in a row, the log records dropped.\<close>

fun stop_times :: "nat \<Rightarrow> ('t, 'd, 'p, 'o) State \<Rightarrow> ('t, 'd, 'p, 'o) State" where
  "stop_times 0 self = self"
| "stop_times (Suc n) self = stop_times n (snd (stop self))"

subsection \<open>The operations a caller has on the two objects\<close>

text \<open>
  Attribute reads and assignments on a \<open>PhaseState\<close>. A dataclass does not validate an
  assignment, so a write stores whatever it is given.
\<close>

datatype phase_field =
  Dataloader | Progress | MaxEpochs | MaxSteps | MaxStepsPerEpoch
  | EvaluateEveryNSteps | EvaluateEveryNEpochs | StepOutput

datatype ('d, 'p, 'o) phase_value =
  DataloaderV 'd | ProgressV 'p | LimitV phase_field "int option" | StepOutputV "'o option"

datatype ('d, 'p, 'o) phase_op =
  ReadP phase_field
  | WriteDataloader 'd | WriteProgress 'p
  | WriteMaxEpochs "int option" | WriteMaxSteps "int option" | WriteMaxStepsPerEpoch "int option"
  | WriteEvaluateEveryNSteps "int option" | WriteEvaluateEveryNEpochs "int option"
  | WriteStepOutput "'o option"

fun read_phase :: "phase_field \<Rightarrow> ('d, 'p, 'o) PhaseState \<Rightarrow> ('d, 'p, 'o) phase_value" where
  "read_phase Dataloader ps = DataloaderV (dataloader ps)"
| "read_phase Progress ps = ProgressV (progress ps)"
| "read_phase MaxEpochs ps = LimitV MaxEpochs (max_epochs ps)"
| "read_phase MaxSteps ps = LimitV MaxSteps (max_steps ps)"
| "read_phase MaxStepsPerEpoch ps = LimitV MaxStepsPerEpoch (max_steps_per_epoch ps)"
| "read_phase EvaluateEveryNSteps ps = LimitV EvaluateEveryNSteps (evaluate_every_n_steps ps)"
| "read_phase EvaluateEveryNEpochs ps = LimitV EvaluateEveryNEpochs (evaluate_every_n_epochs ps)"
| "read_phase StepOutput ps = StepOutputV (step_output ps)"

text \<open>The result of an operation: the exception, or the value read (if any) and the object.\<close>

fun exec_phase_op ::
  "('d, 'p, 'o) phase_op \<Rightarrow> ('d, 'p, 'o) PhaseState
     \<Rightarrow> error + (('d, 'p, 'o) phase_value option \<times> ('d, 'p, 'o) PhaseState)" where
  "exec_phase_op (ReadP f) ps = Inr (Some (read_phase f ps), ps)"
| "exec_phase_op (WriteDataloader v) ps = Inr (None, ps\<lparr>dataloader := v\<rparr>)"
| "exec_phase_op (WriteProgress v) ps = Inr (None, ps\<lparr>progress := v\<rparr>)"
| "exec_phase_op (WriteMaxEpochs v) ps = Inr (None, ps\<lparr>max_epochs := v\<rparr>)"
| "exec_phase_op (WriteMaxSteps v) ps = Inr (None, ps\<lparr>max_steps := v\<rparr>)"
| "exec_phase_op (WriteMaxStepsPerEpoch v) ps = Inr (None, ps\<lparr>max_steps_per_epoch := v\<rparr>)"
| "exec_phase_op (WriteEvaluateEveryNSteps v) ps = Inr (None, ps\<lparr>evaluate_every_n_steps := v\<rparr>)"
| "exec_phase_op (WriteEvaluateEveryNEpochs v) ps = Inr (None, ps\<lparr>evaluate_every_n_epochs := v\<rparr>)"
| "exec_phase_op (WriteStepOutput v) ps = Inr (None, ps\<lparr>step_output := v\<rparr>)"

text \<open>
  The operations on a \<open>State\<close>: the method, the property, reads and assignments of the
  five public fields, an assignment to the property \<open>should_stop\<close> (it has no setter,
  so Python raises \<open>AttributeError\<close> and nothing changes), and an operation on the phase
  object in one of the three slots (\<open>state.train_state.step_output = v\<close>), which raises
  \<open>AttributeError\<close> when the slot holds \<open>None\<close>. The phase objects are nested values:
  two slots never share one object.
\<close>

datatype state_field = EntryPointF | TimerF | TrainState | EvalState | PredictState

datatype ('t, 'd, 'p, 'o) state_value =
  BoolV bool | EntryPointV EntryPoint | TimerV 't
  | PhaseStateV "('d, 'p, 'o) PhaseState option" | PhaseFieldV "('d, 'p, 'o) phase_value"

datatype ('t, 'd, 'p, 'o) state_op =
  Stop
  | ReadShouldStop
  | ReadS state_field
  | WriteEntryPoint EntryPoint
  | WriteTimer 't
  | WriteTrainState "('d, 'p, 'o) PhaseState option"
  | WriteEvalState "('d, 'p, 'o) PhaseState option"
  | WritePredictState "('d, 'p, 'o) PhaseState option"
  | AssignShouldStop bool
  | TrainOp "('d, 'p, 'o) phase_op"
  | EvalOp "('d, 'p, 'o) phase_op"
  | PredictOp "('d, 'p, 'o) phase_op"

fun read_state :: "state_field \<Rightarrow> ('t, 'd, 'p, 'o) State \<Rightarrow> ('t, 'd, 'p, 'o) state_value" where
  "read_state EntryPointF s = EntryPointV (entry_point s)"
| "read_state TimerF s = TimerV (timer s)"
| "read_state TrainState s = PhaseStateV (train_state s)"
| "read_state EvalState s = PhaseStateV (eval_state s)"
| "read_state PredictState s = PhaseStateV (predict_state s)"

type_synonym ('t, 'd, 'p, 'o) outcome =
  "error + (('t, 'd, 'p, 'o) state_value option \<times> log_record list \<times> ('t, 'd, 'p, 'o) State)"

definition on_phase ::
  "('d, 'p, 'o) phase_op \<Rightarrow> ('d, 'p, 'o) PhaseState option
     \<Rightarrow> error + (('d, 'p, 'o) phase_value option \<times> ('d, 'p, 'o) PhaseState)" where
  "on_phase op slot = (case slot of None \<Rightarrow> Inl AttributeError | Some ps \<Rightarrow> exec_phase_op op ps)"

fun exec_state_op ::
  "('t, 'd, 'p, 'o) state_op \<Rightarrow> ('t, 'd, 'p, 'o) State \<Rightarrow> ('t, 'd, 'p, 'o) outcome" where
  "exec_state_op Stop s = (case stop s of (lg, s') \<Rightarrow> Inr (None, lg, s'))"
| "exec_state_op ReadShouldStop s = Inr (Some (BoolV (should_stop s)), [], s)"
| "exec_state_op (ReadS f) s = Inr (Some (read_state f s), [], s)"
| "exec_state_op (WriteEntryPoint v) s = Inr (None, [], s\<lparr>entry_point := v\<rparr>)"
| "exec_state_op (WriteTimer v) s = Inr (None, [], s\<lparr>timer := v\<rparr>)"
| "exec_state_op (WriteTrainState v) s = Inr (None, [], s\<lparr>train_state := v\<rparr>)"
| "exec_state_op (WriteEvalState v) s = Inr (None, [], s\<lparr>eval_state := v\<rparr>)"
| "exec_state_op (WritePredictState v) s = Inr (None, [], s\<lparr>predict_state := v\<rparr>)"
| "exec_state_op (AssignShouldStop b) s = Inl AttributeError"
| "exec_state_op (TrainOp op) s =
     (case on_phase op (train_state s) of
        Inl e \<Rightarrow> Inl e
      | Inr (v, ps) \<Rightarrow> Inr (map_option PhaseFieldV v, [], s\<lparr>train_state := Some ps\<rparr>))"
| "exec_state_op (EvalOp op) s =
     (case on_phase op (eval_state s) of
        Inl e \<Rightarrow> Inl e
      | Inr (v, ps) \<Rightarrow> Inr (map_option PhaseFieldV v, [], s\<lparr>eval_state := Some ps\<rparr>))"
| "exec_state_op (PredictOp op) s =
     (case on_phase op (predict_state s) of
        Inl e \<Rightarrow> Inl e
      | Inr (v, ps) \<Rightarrow> Inr (map_option PhaseFieldV v, [], s\<lparr>predict_state := Some ps\<rparr>))"

text \<open>
  A caller that goes on after an exception finds the object as it was before the failed
  operation. \<open>run\<close> is the object after a sequence of operations.
\<close>

definition after :: "('t, 'd, 'p, 'o) state_op \<Rightarrow> ('t, 'd, 'p, 'o) State \<Rightarrow> ('t, 'd, 'p, 'o) State" where
  "after op s = (case exec_state_op op s of Inl e \<Rightarrow> s | Inr (v, lg, s') \<Rightarrow> s')"

fun run :: "('t, 'd, 'p, 'o) state_op list \<Rightarrow> ('t, 'd, 'p, 'o) State \<Rightarrow> ('t, 'd, 'p, 'o) State" where
  "run [] s = s"
| "run (op # ops) s = run ops (after op s)"

subsection \<open>Concrete objects for the examples\<close>

definition demo_phase :: "(nat list, nat, string) PhaseState" where
  "demo_phase = \<lparr> dataloader = [1, 2, 3], progress = 0, max_epochs = Some 3, max_steps = None,
                  max_steps_per_epoch = None, evaluate_every_n_steps = None,
                  evaluate_every_n_epochs = None, step_output = Some ''loss'' \<rparr>"

definition demo_state :: "(nat, nat list, nat, string) State" where
  "demo_state = \<lparr> entry_point = TRAIN, timer = 0, train_state = Some demo_phase,
                  eval_state = None, predict_state = None, private_should_stop = False \<rparr>"

subsection \<open>The vocabulary of the specification\<close>



definition limit_fields ::
  "int option \<Rightarrow> int option \<Rightarrow> int option \<Rightarrow> int option \<Rightarrow> int option \<Rightarrow> (string \<times> int option) list" where
  "limit_fields me ms mspe eens eene =
     [(''max_epochs'', me), (''max_steps'', ms), (''max_steps_per_epoch'', mspe),
      (''evaluate_every_n_steps'', eens), (''evaluate_every_n_epochs'', eene)]"

fun first_offending :: "(string \<times> int option) list \<Rightarrow> (string \<times> int) option" where
  "first_offending [] = None"
| "first_offending ((name, val) # rest) =
     (case val of
        None \<Rightarrow> first_offending rest
      | Some v \<Rightarrow> if v < 0 then Some (name, v) else first_offending rest)"

section \<open>Lemmas\<close>

lemma check_loop_condition_Inl:
  "check_loop_condition name val = Inl e \<longleftrightarrow>
     (\<exists>v. val = Some v \<and> v < 0 \<and> e = ValueError (invalid_value_message name v))"
  by (auto simp: check_loop_condition_def split: option.splits)




lemma post_init_first_offending:
  "post_init self =
     (case first_offending (limit_fields (max_epochs self) (max_steps self) (max_steps_per_epoch self)
             (evaluate_every_n_steps self) (evaluate_every_n_epochs self)) of
        None \<Rightarrow> Inr ()
      | Some (name, v) \<Rightarrow> Inl (ValueError (invalid_value_message name v)))"
  by (simp add: post_init_def limit_fields_def check_loop_condition_def split: option.splits)

lemma PhaseState_init_first_offending:
  "PhaseState_init fresh dl pr me ms mspe eens eene so =
     (case first_offending (limit_fields me ms mspe eens eene) of
        None \<Rightarrow> Inr \<lparr> dataloader = dl, progress = (case pr of None \<Rightarrow> fresh | Some p \<Rightarrow> p),
                      max_epochs = me, max_steps = ms, max_steps_per_epoch = mspe,
                      evaluate_every_n_steps = eens, evaluate_every_n_epochs = eene,
                      step_output = so \<rparr>
      | Some (name, v) \<Rightarrow> Inl (ValueError (invalid_value_message name v)))"
  by (simp add: PhaseState_init_def Let_def post_init_first_offending split: option.splits)



lemma stop_twice: "snd (stop (snd (stop s))) = snd (stop s)"
  by (simp add: stop_def)

lemma stop_times_stopped: "stop_times n (snd (stop s)) = snd (stop s)"
  by (induction n) (simp_all add: stop_twice)

lemma stop_times_Suc: "stop_times (Suc n) s = snd (stop s)"
  by (simp add: stop_times_stopped)

lemma after_keeps_stop: "should_stop s \<Longrightarrow> should_stop (after op s)"
  by (cases op)
     (auto simp: after_def should_stop_def stop_def on_phase_def split: sum.splits option.splits)

lemma run_keeps_stop: "should_stop s \<Longrightarrow> should_stop (run ops s)"
  by (induction ops arbitrary: s) (simp_all add: after_keeps_stop)

lemma run_append: "run (xs @ ys) s = run ys (run xs s)"
  by (induction xs arbitrary: s) simp_all

lemma exec_phase_op_total: "\<exists>r. exec_phase_op op ps = Inr r"
  by (cases op) simp_all


section \<open>Construction of a \<open>PhaseState\<close>\<close>



text \<open>The scenario of the specification.\<close>

lemma PhaseState_init_scenario:
  "PhaseState_init () [1, 2 :: nat] None (Some (- 3)) None None None None (None :: unit option) =
     Inl (ValueError ''Invalid value provided for max_epochs. Expected a non-negative integer or None, but received -3.'')"
  by (simp add: PhaseState_init_first_offending limit_fields_def invalid_value_message_def
      str_int_def str_nat.simps digit_char_def)



section \<open>Construction of a \<open>State\<close>\<close>

text \<open>
  C3. For every entry point and every choice of \<open>timer\<close>, \<open>train_state\<close>, \<open>eval_state\<close> and
  \<open>predict_state\<close>, with \<open>_should_stop\<close> left to its default, the constructed \<open>State\<close>
  has \<open>should_stop\<close> false.
\<close>

theorem State_init_not_stopped:
  "\<exists>s. State_init fresh_timer ep tm ts es ps None = Inr s \<and> \<not> should_stop s"
  by (simp add: State_init_def should_stop_def)

text \<open>
  C10. The flag is an ordinary constructor field: a \<open>State\<close> constructed with
  \<open>_should_stop=True\<close> has \<open>should_stop\<close> true before any call of \<open>stop\<close>.
\<close>

theorem State_init_explicit_flag:
  "\<exists>s. State_init fresh_timer ep tm ts es ps (Some True) = Inr s \<and> should_stop s"
  by (simp add: State_init_def should_stop_def)

text \<open>
  C6. A constructed \<open>State\<close> exposes its arguments unchanged: \<open>entry_point\<close> is the value
  passed, whichever of the four it is, and with \<open>train_state=None\<close>,
  \<open>eval_state=phase\<close>, \<open>predict_state=None\<close> the object has that \<open>eval_state\<close> and
  \<open>None\<close> in the two other slots.
\<close>

theorem State_init_exposes_arguments:
  "(\<exists>s. State_init fresh_timer ep tm ts es ps flag = Inr s \<and> entry_point s = ep
        \<and> train_state s = ts \<and> eval_state s = es \<and> predict_state s = ps
        \<and> timer s = (case tm of None \<Rightarrow> fresh_timer | Some t \<Rightarrow> t))
   \<and> (\<exists>s. State_init fresh_timer ep tm None (Some phase) None flag = Inr s
        \<and> eval_state s = Some phase \<and> train_state s = None \<and> predict_state s = None)"
  by (simp add: State_init_def)

section \<open>The stop flag\<close>

text \<open>
  C2. After one call of \<open>stop\<close>, \<open>should_stop\<close> is true, and it is true after any number
  of further calls: \<open>n + 1\<close> calls leave the object that one call leaves, and a second call
  changes nothing.
\<close>

theorem stop_sets_flag_idempotent:
  "should_stop (snd (stop s))
   \<and> should_stop (stop_times (Suc n) s)
   \<and> stop_times (Suc n) s = snd (stop s)
   \<and> snd (stop (snd (stop s))) = snd (stop s)
   \<and> should_stop (stop_times (Suc n) s) = should_stop (stop_times 1 s)"
  by (simp add: stop_times_stopped stop_twice) (simp add: stop_def should_stop_def)

text \<open>
  C4. Once \<open>should_stop\<close> is true, no operation makes it false: not \<open>stop\<close>, a read of the
  property or of a field, an assignment to a public field or to a field of a phase object,
  nor an attempted assignment to the property, which raises. So a flag that is true after
  a sequence of operations is true after every longer one.
\<close>

theorem stop_flag_monotonic:
  "(should_stop s' \<longrightarrow> should_stop (after op s'))
   \<and> (should_stop (run xs s) \<longrightarrow> should_stop (run (xs @ ys) s))"
  by (simp add: after_keeps_stop run_append run_keeps_stop)

theorem stop_flag_monotonic_witness:
  "\<not> should_stop demo_state
   \<and> should_stop (run [ReadShouldStop, Stop] demo_state)
   \<and> should_stop (after (AssignShouldStop False) (run [ReadShouldStop, Stop] demo_state))
   \<and> should_stop (run ([ReadShouldStop, Stop] @
        [AssignShouldStop False, TrainOp (WriteStepOutput (Some ''out'')), TrainOp (WriteProgress 7),
         EvalOp (WriteStepOutput None), ReadShouldStop, WriteTrainState None, ReadS TrainState, Stop])
        demo_state)"
proof -
  have before: "\<not> should_stop demo_state"
    by (simp add: demo_state_def should_stop_def)
  have stopped: "should_stop (run [ReadShouldStop, Stop] demo_state)"
    by (simp add: after_def stop_def should_stop_def demo_state_def)
  from stop_flag_monotonic [of "run [ReadShouldStop, Stop] demo_state" "AssignShouldStop False"
      "[ReadShouldStop, Stop]" demo_state] stopped before
  show ?thesis by blast
qed

text \<open>
  C5. \<open>stop\<close> changes the flag and nothing else: the entry point, the timer and the three
  phase slots, hence every field of a phase object they hold, are those of the object
  before the call.
\<close>

theorem stop_changes_only_flag:
  "snd (stop s) = s\<lparr>private_should_stop := True\<rparr>
   \<and> entry_point (snd (stop s)) = entry_point s
   \<and> timer (snd (stop s)) = timer s
   \<and> train_state (snd (stop s)) = train_state s
   \<and> eval_state (snd (stop s)) = eval_state s
   \<and> predict_state (snd (stop s)) = predict_state s
   \<and> after Stop s = snd (stop s)"
  by (simp add: stop_def after_def)

text \<open>The scenario of the specification: the step output written before \<open>stop\<close> is still there.\<close>

lemma stop_scenario:
  "should_stop (after Stop demo_state)
   \<and> map_option step_output (train_state (after Stop demo_state)) = Some (Some ''loss'')"
  by (simp add: after_def stop_def should_stop_def demo_state_def demo_phase_def)

text \<open>
  C8. Reading \<open>should_stop\<close> returns the flag and leaves the object as it is, so a second
  read with no \<open>stop\<close> in between returns the same value.
\<close>

theorem should_stop_read_only:
  "should_stop s = private_should_stop s
   \<and> exec_state_op ReadShouldStop s = Inr (Some (BoolV (private_should_stop s)), [], s)
   \<and> after ReadShouldStop s = s
   \<and> exec_state_op ReadShouldStop (after ReadShouldStop s) = exec_state_op ReadShouldStop s"
  by (simp add: should_stop_def after_def)

section \<open>Totality\<close>

text \<open>
  C7. Constructing a \<open>State\<close> never raises, whatever the entry point and the phase slots
  (\<open>TRAIN\<close> with an \<open>eval_state\<close> is accepted), and neither do \<open>stop\<close>, \<open>should_stop\<close>, a
  read or an assignment of a field of a \<open>State\<close>, or a read or an assignment of a field of
  a \<open>PhaseState\<close>.
\<close>

theorem State_operations_total:
  "(\<exists>s. State_init fresh_timer ep tm ts es ps flag = Inr s)
   \<and> (\<exists>s. State_init fresh_timer TRAIN tm ts (Some phase) ps flag = Inr s
         \<and> entry_point s = TRAIN \<and> eval_state s = Some phase)
   \<and> (\<exists>r. exec_state_op Stop s = Inr r)
   \<and> (\<exists>r. exec_state_op ReadShouldStop s = Inr r)
   \<and> (\<exists>r. exec_state_op (ReadS f) s = Inr r)
   \<and> (\<exists>r. exec_state_op (WriteEntryPoint ep') s = Inr r)
   \<and> (\<exists>r. exec_state_op (WriteTimer t') s = Inr r)
   \<and> (\<exists>r. exec_state_op (WriteTrainState ts') s = Inr r)
   \<and> (\<exists>r. exec_state_op (WriteEvalState es') s = Inr r)
   \<and> (\<exists>r. exec_state_op (WritePredictState ps') s = Inr r)
   \<and> (\<exists>r. exec_phase_op op self = Inr r)"
  using exec_phase_op_total [of op self] by (simp add: State_init_def stop_def)

end
